theory Spec2Isabelle
  imports Complex_Main "HOL-Library.Char_ord" "HOL-Library.List_Lexorder"
begin

section \<open>Product creation: \<open>add_product\<close> of improved_endpoint.py\<close>

text \<open>
  The endpoint reads a JSON body, validates it, opens a connection to the store and runs
  one transaction: two existence checks, three inserts, a commit. Everything outside the
  program is a parameter of the model: the identifiers drawn from \<open>uuid.uuid4()\<close>, the
  readings of the clock, and the answer of the storage layer to each statement (it may
  raise \<open>sqlite3.IntegrityError\<close> or another \<open>sqlite3.Error\<close>).
\<close>

subsection \<open>Strings\<close>

definition isspace :: "char \<Rightarrow> bool" where
  \<comment> \<open>the characters that Python's \<open>str.isspace\<close> accepts, a \<open>char\<close> being a code point
      below 256\<close>
  "isspace c =
     (c = CHR '' '' \<or> c = CHR 0x09 \<or> c = CHR 0x0A \<or> c = CHR 0x0B \<or> c = CHR 0x0C \<or>
      c = CHR 0x0D \<or> c = CHR 0x1C \<or> c = CHR 0x1D \<or> c = CHR 0x1E \<or> c = CHR 0x1F \<or>
      c = CHR 0x85 \<or> c = CHR 0xA0)"

definition strip :: "string \<Rightarrow> string" where
  "strip s = rev (dropWhile isspace (rev (dropWhile isspace s)))"

primrec startswith :: "string \<Rightarrow> string \<Rightarrow> bool" where
  \<comment> \<open>\<open>startswith p s\<close>: the string \<open>s\<close> begins with \<open>p\<close>\<close>
  "startswith [] s = True"
| "startswith (c # p) s = (case s of [] \<Rightarrow> False | d # t \<Rightarrow> c = d \<and> startswith p t)"

primrec str_contains :: "string \<Rightarrow> string \<Rightarrow> bool" where
  \<comment> \<open>Python's \<open>p in s\<close> on strings\<close>
  "str_contains p [] = (p = [])"
| "str_contains p (c # s) = (startswith p (c # s) \<or> str_contains p s)"

subsection \<open>Messages, exceptions, responses\<close>

datatype message =
    NoJsonDataProvided
  | MissingRequiredField string
  | SkuCannotBeEmpty
  | NameCannotBeEmpty
  | QuantityCannotBeNegative
  | PriceCannotBeNegative
  | InvalidPriceFormat
  | WarehouseDoesNotExist int
  | SkuAlreadyExists string
  | DatabaseIntegrityViolation
  | InternalServerError

datatype exn =
    ValidationError message
  | IntegrityError string      \<comment> \<open>\<open>sqlite3.IntegrityError\<close> with its text\<close>
  | OtherError string          \<comment> \<open>any other exception, by its name or its text\<close>
  | DatabaseError exn          \<comment> \<open>\<open>DatabaseError('Failed to create product: ' + str(e))\<close>\<close>

datatype decimal =
    Finite bool nat int   \<comment> \<open>sign (\<open>True\<close> is minus), coefficient, exponent, as \<open>decimal.Decimal\<close>
                              holds them; \<open>str(price)\<close> is printed from these\<close>
  | Infinite bool         \<comment> \<open>\<open>Decimal('Infinity')\<close>, \<open>Decimal('-Infinity')\<close>\<close>
  | NotANumber

record created_data =
  cd_product_id :: string
  cd_sku :: string
  cd_name :: string
  cd_price :: decimal
  cd_warehouse_id :: int
  cd_initial_stock :: int
  cd_created_at :: string

datatype body = ErrorBody message | CreatedBody created_data

record response =
  status :: nat
  payload :: body

definition error_response :: "nat \<Rightarrow> message \<Rightarrow> response" where
  "error_response code m = \<lparr>status = code, payload = ErrorBody m\<rparr>"

subsection \<open>The request\<close>

datatype price_in =
    Parsed decimal   \<comment> \<open>\<open>Decimal(str(data['price']))\<close> succeeded with this value\<close>
  | Unparseable      \<comment> \<open>it raised \<open>InvalidOperation\<close>\<close>

definition below_zero :: "decimal \<Rightarrow> bool" where
  \<comment> \<open>\<open>price < 0\<close>, for a price that is not \<open>NaN\<close>\<close>
  "below_zero d =
     (case d of Finite neg c e \<Rightarrow> neg \<and> c \<noteq> 0 | Infinite neg \<Rightarrow> neg
      | NotANumber \<Rightarrow> False)"

datatype 'a converted =
    Converted 'a     \<comment> \<open>\<open>int(...)\<close> returned this value\<close>
  | Unconvertible    \<comment> \<open>it raised \<open>ValueError\<close> or \<open>TypeError\<close>\<close>

text \<open>
  A required field is \<open>None\<close> when the key is absent or its value is null (the code treats
  both alike). An optional field is \<open>None\<close> when the key is absent and \<open>Some None\<close> when
  its value is null, as \<open>dict.get\<close> distinguishes them. The fields \<open>sku\<close> and \<open>name\<close> hold
  what \<open>str(...)\<close> returns, \<open>warehouse_id\<close> and \<open>quantity\<close> the outcome of \<open>int(...)\<close>,
  \<open>price\<close> the outcome of \<open>Decimal(str(...))\<close>.
\<close>

record request =
  rq_sku :: "string option"
  rq_name :: "string option"
  rq_price :: "price_in option"
  rq_warehouse_id :: "int converted option"
  rq_quantity :: "int converted option"
  rq_description :: "string option option"
  rq_supplier_id :: "string option option"
  rq_low_stock_threshold :: "int option option"
  rq_created_by :: "string option option"

definition dict_get :: "'a option option \<Rightarrow> 'a option \<Rightarrow> 'a option" where
  \<comment> \<open>\<open>data.get(key, default)\<close>\<close>
  "dict_get field dflt = (case field of None \<Rightarrow> dflt | Some v \<Rightarrow> v)"

record valid_input =
  vi_sku :: string
  vi_name :: string
  vi_price :: decimal
  vi_warehouse_id :: int
  vi_quantity :: int
  vi_description :: "string option"
  vi_supplier_id :: "string option"
  vi_low_stock_threshold :: "int option"
  vi_created_by :: "string option"

datatype early = Return response | Raise exn

definition validate :: "request \<Rightarrow> early + valid_input" where
  "validate r =
    (case rq_sku r of None \<Rightarrow> Inl (Return (error_response 400 (MissingRequiredField ''sku'')))
     | Some sku0 \<Rightarrow>
    (case rq_name r of None \<Rightarrow> Inl (Return (error_response 400 (MissingRequiredField ''name'')))
     | Some name0 \<Rightarrow>
    (case rq_price r of None \<Rightarrow> Inl (Return (error_response 400 (MissingRequiredField ''price'')))
     | Some price0 \<Rightarrow>
    (case rq_warehouse_id r of
       None \<Rightarrow> Inl (Return (error_response 400 (MissingRequiredField ''warehouse_id'')))
     | Some warehouse_id0 \<Rightarrow>
    (case rq_quantity r of
       None \<Rightarrow> Inl (Return (error_response 400 (MissingRequiredField ''quantity'')))
     | Some quantity0 \<Rightarrow>
       (let sku = strip sku0; name = strip name0 in
        case warehouse_id0 of
          Unconvertible \<Rightarrow> Inl (Raise (OtherError ''ValueError''))
        | Converted warehouse_id \<Rightarrow>
        (case quantity0 of
          Unconvertible \<Rightarrow> Inl (Raise (OtherError ''ValueError''))
        | Converted quantity \<Rightarrow>
        if sku = [] then Inl (Raise (ValidationError SkuCannotBeEmpty))
        else if name = [] then Inl (Raise (ValidationError NameCannotBeEmpty))
        else if quantity < 0 then Inl (Raise (ValidationError QuantityCannotBeNegative))
        else (case price0 of
                Unparseable \<Rightarrow> Inl (Raise (ValidationError InvalidPriceFormat))
              | Parsed NotANumber \<Rightarrow> Inl (Raise (ValidationError InvalidPriceFormat))
              | Parsed price \<Rightarrow>
                  if below_zero price then Inl (Raise (ValidationError PriceCannotBeNegative))
                  else Inr \<lparr>vi_sku = sku, vi_name = name, vi_price = price,
                            vi_warehouse_id = warehouse_id, vi_quantity = quantity,
                            vi_description = dict_get (rq_description r) (Some []),
                            vi_supplier_id = dict_get (rq_supplier_id r) None,
                            vi_low_stock_threshold = dict_get (rq_low_stock_threshold r) (Some 10),
                            vi_created_by = dict_get (rq_created_by r) (Some ''system'')\<rparr>))))))))"

subsection \<open>The store and the connection\<close>

record warehouse_row =
  wh_id :: int

record product_row =
  pr_id :: string
  pr_sku :: string
  pr_name :: string
  pr_description :: "string option"
  pr_price :: decimal
  pr_supplier_id :: "string option"
  pr_low_stock_threshold :: "int option"
  pr_created_by :: "string option"
  pr_created_at :: string

record inventory_row =
  iv_id :: string
  iv_product_id :: string
  iv_warehouse_id :: int
  iv_current_stock :: int
  iv_created_by :: "string option"
  iv_created_at :: string

record inventory_transaction_row =
  it_id :: string
  it_product_id :: string
  it_warehouse_id :: int
  it_transaction_type :: string
  it_quantity :: int
  it_reason :: string
  it_created_by :: "string option"
  it_created_at :: string

record database =
  warehouses :: "warehouse_row list"
  products :: "product_row list"
  inventory :: "inventory_row list"
  inventory_transactions :: "inventory_transaction_row list"

text \<open>
  A connection sees its own uncommitted writes (\<open>working\<close>); every other reader sees
  \<open>committed\<close> only.
\<close>

record conn =
  committed :: database
  working :: database

definition connect :: "database \<Rightarrow> conn" where
  "connect db = \<lparr>committed = db, working = db\<rparr>"

definition commit :: "conn \<Rightarrow> conn" where
  "commit c = c\<lparr>committed := working c\<rparr>"

definition rollback :: "conn \<Rightarrow> conn" where
  "rollback c = c\<lparr>working := committed c\<rparr>"

subsection \<open>What the program does not decide\<close>

datatype stmt =
    BeginTransaction | SelectWarehouse | SelectSku
  | InsertProduct | InsertInventory | InsertInventoryTransaction | Commit

datatype sqlite_error = SqlIntegrityError string | SqlOtherError string

record env =
  faults :: "stmt \<Rightarrow> sqlite_error option"   \<comment> \<open>the statement the store rejects, and how\<close>
  product_uuid :: string
  inventory_uuid :: string
  transaction_uuid :: string
  utcnow :: "nat \<Rightarrow> string"              \<comment> \<open>what the k-th call of \<open>datetime.utcnow()\<close> returns\<close>

definition raised :: "sqlite_error \<Rightarrow> exn" where
  "raised f = (case f of SqlIntegrityError m \<Rightarrow> IntegrityError m | SqlOtherError m \<Rightarrow> OtherError m)"

subsection \<open>The transaction\<close>

definition new_product :: "env \<Rightarrow> valid_input \<Rightarrow> product_row" where
  "new_product e v =
     \<lparr>pr_id = product_uuid e, pr_sku = vi_sku v, pr_name = vi_name v,
      pr_description = vi_description v, pr_price = vi_price v,
      pr_supplier_id = vi_supplier_id v, pr_low_stock_threshold = vi_low_stock_threshold v,
      pr_created_by = vi_created_by v, pr_created_at = utcnow e 0\<rparr>"

definition new_inventory :: "env \<Rightarrow> valid_input \<Rightarrow> inventory_row" where
  "new_inventory e v =
     \<lparr>iv_id = inventory_uuid e, iv_product_id = product_uuid e,
      iv_warehouse_id = vi_warehouse_id v, iv_current_stock = vi_quantity v,
      iv_created_by = vi_created_by v, iv_created_at = utcnow e 1\<rparr>"

definition new_inventory_transaction :: "env \<Rightarrow> valid_input \<Rightarrow> inventory_transaction_row" where
  "new_inventory_transaction e v =
     \<lparr>it_id = transaction_uuid e, it_product_id = product_uuid e,
      it_warehouse_id = vi_warehouse_id v, it_transaction_type = ''INITIAL_STOCK'',
      it_quantity = vi_quantity v, it_reason = ''Product creation'',
      it_created_by = vi_created_by v, it_created_at = utcnow e 2\<rparr>"

definition run_stmt :: "env \<Rightarrow> valid_input \<Rightarrow> stmt \<Rightarrow> conn \<Rightarrow> exn + conn" where
  "run_stmt e v s c =
    (case faults e s of
       Some f \<Rightarrow> Inl (raised f)
     | None \<Rightarrow>
        (case s of
           BeginTransaction \<Rightarrow> Inr c
         | SelectWarehouse \<Rightarrow>
             if filter (\<lambda>w. wh_id w = vi_warehouse_id v) (warehouses (working c)) = []
             then Inl (ValidationError (WarehouseDoesNotExist (vi_warehouse_id v)))
             else Inr c
         | SelectSku \<Rightarrow>
             if filter (\<lambda>p. pr_sku p = vi_sku v) (products (working c)) \<noteq> []
             then Inl (ValidationError (SkuAlreadyExists (vi_sku v)))
             else Inr c
         | InsertProduct \<Rightarrow>
             Inr (c\<lparr>working := (working c)\<lparr>products := products (working c) @ [new_product e v]\<rparr>\<rparr>)
         | InsertInventory \<Rightarrow>
             Inr (c\<lparr>working := (working c)\<lparr>inventory := inventory (working c) @ [new_inventory e v]\<rparr>\<rparr>)
         | InsertInventoryTransaction \<Rightarrow>
             Inr (c\<lparr>working := (working c)\<lparr>inventory_transactions :=
                    inventory_transactions (working c) @ [new_inventory_transaction e v]\<rparr>\<rparr>)
         | Commit \<Rightarrow> Inr (commit c)))"

text \<open>
  Statements run in order until one raises. The result is the exception, if any, and the
  connection states reached after each statement that completed.
\<close>

fun run_stmts :: "env \<Rightarrow> valid_input \<Rightarrow> stmt list \<Rightarrow> conn \<Rightarrow> exn option \<times> conn list" where
  "run_stmts e v [] c = (None, [])"
| "run_stmts e v (s # ss) c =
     (case run_stmt e v s c of
        Inl x \<Rightarrow> (Some x, [])
      | Inr c' \<Rightarrow> (case run_stmts e v ss c' of (r, cs) \<Rightarrow> (r, c' # cs)))"

definition try_body :: "stmt list" where
  "try_body = [BeginTransaction, SelectWarehouse, SelectSku,
               InsertProduct, InsertInventory, InsertInventoryTransaction, Commit]"

definition before_commit :: "stmt list" where
  \<comment> \<open>the statements of \<open>try_body\<close> up to the commit\<close>
  "before_commit = [BeginTransaction, SelectWarehouse, SelectSku,
                    InsertProduct, InsertInventory, InsertInventoryTransaction]"

definition created_response :: "env \<Rightarrow> valid_input \<Rightarrow> response" where
  "created_response e v =
     \<lparr>status = 201,
      payload = CreatedBody
        \<lparr>cd_product_id = product_uuid e, cd_sku = vi_sku v, cd_name = vi_name v,
         cd_price = vi_price v, cd_warehouse_id = vi_warehouse_id v,
         cd_initial_stock = vi_quantity v, cd_created_at = utcnow e 3\<rparr>\<rparr>"

text \<open>
  The handlers of the inner \<open>try\<close>, in the order Python tries them:
  \<open>except sqlite3.IntegrityError\<close> returns a response; \<open>except Exception\<close> catches every
  other exception, \<open>ValidationError\<close> included, and raises \<open>DatabaseError\<close>.
  Both roll back first.
\<close>

definition inner_except :: "valid_input \<Rightarrow> exn \<Rightarrow> early" where
  "inner_except v x =
     (case x of
        IntegrityError m \<Rightarrow>
          if str_contains ''UNIQUE constraint failed'' m
          then Return (error_response 409 (SkuAlreadyExists (vi_sku v)))
          else Return (error_response 500 DatabaseIntegrityViolation)
      | _ \<Rightarrow> Raise (DatabaseError x))"

text \<open>The handlers of the outer \<open>try\<close>.\<close>

definition outer_except :: "exn \<Rightarrow> response" where
  "outer_except x =
     (case x of
        ValidationError m \<Rightarrow> error_response 400 m
      | DatabaseError _ \<Rightarrow> error_response 500 InternalServerError
      | _ \<Rightarrow> error_response 500 InternalServerError)"

definition finish :: "early \<Rightarrow> response" where
  "finish t = (case t of Return resp \<Rightarrow> resp | Raise x \<Rightarrow> outer_except x)"

text \<open>
  \<open>add_product\<close> returns the response and the committed states of the store, in order:
  the state before the request, the state after each statement of the transaction, and
  the state after the handler ran. These are the states another reader can observe.
\<close>

definition transaction :: "env \<Rightarrow> valid_input \<Rightarrow> database \<Rightarrow> response \<times> database list" where
  "transaction e v db =
     (let c0 = connect db in
      case run_stmts e v try_body c0 of (r, cs) \<Rightarrow>
        (case r of
           None \<Rightarrow> (created_response e v, db # map committed cs)
         | Some x \<Rightarrow>
             (let c1 = rollback (last (c0 # cs))
              in (finish (inner_except v x), db # map committed cs @ [committed c1]))))"

definition add_product :: "env \<Rightarrow> request option \<Rightarrow> database \<Rightarrow> response \<times> database list" where
  "add_product e data db =
     (case data of
        None \<Rightarrow> (error_response 400 NoJsonDataProvided, [db])
      | Some r \<Rightarrow>
          (case validate r of
             Inl t \<Rightarrow> (finish t, [db])
           | Inr v \<Rightarrow> transaction e v db))"

definition with_created :: "env \<Rightarrow> valid_input \<Rightarrow> database \<Rightarrow> database" where
  \<comment> \<open>the store with the product, its inventory row and its audit row added\<close>
  "with_created e v db =
     db\<lparr>products := products db @ [new_product e v],
        inventory := inventory db @ [new_inventory e v],
        inventory_transactions := inventory_transactions db @ [new_inventory_transaction e v]\<rparr>"

text \<open>
  A uniqueness violation reaches the program as \<open>sqlite3.IntegrityError\<close> whose text names
  the constraint: \<open>UNIQUE constraint failed: products.sku\<close> for the SKU of a product.
\<close>

definition sqlite_unique_violation :: "string \<Rightarrow> string \<Rightarrow> sqlite_error" where
  "sqlite_unique_violation table column =
     SqlIntegrityError (''UNIQUE constraint failed: '' @ table @ ''.'' @ column)"

subsection \<open>Sample requests and stores\<close>

definition no_faults :: "stmt \<Rightarrow> sqlite_error option" where
  "no_faults s = None"

definition sample_clock :: "nat \<Rightarrow> string" where
  "sample_clock k = ''2024-01-01T00:00:0'' @ [''0123456789'' ! k]"

definition example_env :: env where
  "example_env = \<lparr>faults = no_faults, product_uuid = ''p-1'', inventory_uuid = ''i-1'',
                   transaction_uuid = ''t-1'', utcnow = sample_clock\<rparr>"

definition disk_full_env :: env where
  \<comment> \<open>the store fails on the second insert\<close>
  "disk_full_env =
     example_env\<lparr>faults := (\<lambda>s. if s = InsertInventory
                                 then Some (SqlOtherError ''database or disk is full'') else None)\<rparr>"

definition racing_env :: env where
  \<comment> \<open>another writer created the same SKU after the pre-check\<close>
  "racing_env =
     example_env\<lparr>faults := (\<lambda>s. if s = InsertProduct
                                 then Some (sqlite_unique_violation ''products'' ''sku'') else None)\<rparr>"

definition example_request :: request where
  "example_request =
     \<lparr>rq_sku = Some '' A1 '', rq_name = Some ''Widget'', rq_price = Some (Parsed (Finite False 1999 (- 2))),
      rq_warehouse_id = Some (Converted 7), rq_quantity = Some (Converted 5), rq_description = None,
      rq_supplier_id = None, rq_low_stock_threshold = None, rq_created_by = None\<rparr>"

definition example_input :: valid_input where
  "example_input =
     \<lparr>vi_sku = ''A1'', vi_name = ''Widget'', vi_price = Finite False 1999 (- 2), vi_warehouse_id = 7,
      vi_quantity = 5, vi_description = Some [], vi_supplier_id = None,
      vi_low_stock_threshold = Some 10, vi_created_by = Some ''system''\<rparr>"

definition empty_db :: database where
  "empty_db = \<lparr>warehouses = [], products = [], inventory = [], inventory_transactions = []\<rparr>"

definition example_db :: database where
  \<comment> \<open>one warehouse, number 7, and no product yet\<close>
  "example_db = empty_db\<lparr>warehouses := [\<lparr>wh_id = 7\<rparr>]\<rparr>"

definition stocked_db :: database where
  \<comment> \<open>\<open>example_db\<close> after the product with SKU \<open>A1\<close> was created\<close>
  "stocked_db = with_created example_env example_input example_db"

section \<open>Low-stock alerts and reorder suggestions: api_implementation.py\<close>

text \<open>
  Both endpoints send one SQL statement to a \<open>sqlite3\<close> connection and turn each result
  row into a JSON object. A statement is modelled by what SQLite does with it: joins as
  list comprehensions over the tables, \<open>WHERE\<close> as the filter, \<open>ORDER BY\<close> as a sort with
  the comparison of the clause, and a statement SQLite cannot tokenize as the error it
  raises. Dates are day numbers. Outside the program and parameters of the model: the
  day \<open>DATE('now')\<close> returns, the readings of the clock, and how \<open>str\<close> prints a float.
\<close>

subsection \<open>Doubles\<close>

text \<open>
  Python's \<open>float\<close> and SQLite's \<open>REAL\<close> are IEEE 754 doubles. A double is modelled by the
  rational number it denotes, and every operation rounds its exact result to the nearest
  double, ties to the even significand (\<open>fl\<close>). The model keeps 53 significant bits and
  leaves the exponent unbounded: it has neither infinities nor subnormal numbers, and it
  agrees with the machine wherever a result \<open>r\<close> is zero or has
  \<open>2^-1022 \<le> |r| < 2^1024\<close>. The two zeros are not told apart.
\<close>

definition round_half_even :: "rat \<Rightarrow> int" where
  "round_half_even x =
     (let f = \<lfloor>x\<rfloor>; d = x - of_int f
      in if d < 1 / 2 then f else if 1 / 2 < d then f + 1 else if even f then f else f + 1)"

function bit_length :: "int \<Rightarrow> nat" where
  "bit_length n = (if n \<le> 0 then 0 else Suc (bit_length (n div 2)))"
  by pat_completeness auto
termination
  by (relation "measure nat") auto

declare bit_length.simps [simp del]

definition pow2 :: "int \<Rightarrow> rat" where
  "pow2 k = (if 0 \<le> k then 2 ^ nat k else 1 / 2 ^ nat (- k))"

definition exponent :: "rat \<Rightarrow> int" where
  \<comment> \<open>for \<open>0 < x\<close>: the \<open>e\<close> with \<open>2^e \<le> x < 2^(e+1)\<close>\<close>
  "exponent x =
     (if 1 \<le> x then int (bit_length \<lfloor>x\<rfloor>) - 1
      else (let k = int (bit_length \<lfloor>1 / x\<rfloor>)
            in if x < pow2 (1 - k) then - k else 1 - k))"

definition fl :: "rat \<Rightarrow> rat" where
  \<comment> \<open>the double nearest to \<open>x\<close>\<close>
  "fl x =
     (if x = 0 then 0
      else (let a = \<bar>x\<bar>; ulp = pow2 (exponent a - 52)
            in sgn x * (of_int (round_half_even (a / ulp)) * ulp)))"

definition binary64 :: "rat \<Rightarrow> bool" where
  \<comment> \<open>\<open>x\<close> is zero or a normal double\<close>
  "binary64 x = (fl x = x \<and> (x = 0 \<or> (1 / 2 ^ 1022 \<le> \<bar>x\<bar> \<and> \<bar>x\<bar> < 2 ^ 1024)))"

definition int64 :: "int \<Rightarrow> bool" where
  \<comment> \<open>the range of an SQLite \<open>INTEGER\<close>\<close>
  "int64 n = (- (2 ^ 63) \<le> n \<and> n < 2 ^ 63)"

subsection \<open>Python arithmetic\<close>

datatype py_error = ZeroDivisionError

definition float_of_int :: "int \<Rightarrow> rat" where
  \<comment> \<open>the conversion Python applies to an \<open>int\<close> operand of a \<open>float\<close> operation\<close>
  "float_of_int n = fl (of_int n)"

definition truediv :: "rat \<Rightarrow> rat \<Rightarrow> py_error + rat" where
  \<comment> \<open>\<open>a / b\<close> on floats\<close>
  "truediv a b = (if b = 0 then Inl ZeroDivisionError else Inr (fl (a / b)))"

definition int_truediv :: "int \<Rightarrow> int \<Rightarrow> py_error + rat" where
  \<comment> \<open>\<open>a / b\<close> on ints: the exact quotient, rounded once\<close>
  "int_truediv a b = (if b = 0 then Inl ZeroDivisionError else Inr (fl (of_int a / of_int b)))"

definition float_mul :: "rat \<Rightarrow> rat \<Rightarrow> rat" where
  \<comment> \<open>\<open>a * b\<close> on floats\<close>
  "float_mul a b = fl (a * b)"

definition py_int :: "rat \<Rightarrow> int" where
  \<comment> \<open>\<open>int(x)\<close> of a float: truncation towards zero\<close>
  "py_int x = (if x < 0 then \<lceil>x\<rceil> else \<lfloor>x\<rfloor>)"

definition py_round :: "rat \<Rightarrow> nat \<Rightarrow> rat" where
  \<comment> \<open>\<open>round(x, ndigits)\<close> of a float: the exact value of \<open>x\<close> rounded to \<open>ndigits\<close>
      decimals, ties to even, and the double nearest to that decimal\<close>
  "py_round x ndigits = fl (of_int (round_half_even (x * 10 ^ ndigits)) / 10 ^ ndigits)"

datatype sql_value = SqlNull | SqlInteger int | SqlReal rat | SqlText string

definition truthy :: "sql_value \<Rightarrow> bool" where
  \<comment> \<open>the truth value Python gives to a value read from a row\<close>
  "truthy v =
     (case v of SqlNull \<Rightarrow> False | SqlInteger n \<Rightarrow> n \<noteq> 0 | SqlReal x \<Rightarrow> x \<noteq> 0
      | SqlText s \<Rightarrow> s \<noteq> [])"

function str_nat :: "nat \<Rightarrow> string" where
  "str_nat n = (if n < 10 then [''0123456789'' ! n]
                else str_nat (n div 10) @ [''0123456789'' ! (n mod 10)])"
  by pat_completeness auto
termination
  by (relation "measure id") auto

declare str_nat.simps [simp del]

definition str_int :: "int \<Rightarrow> string" where
  "str_int i = (if i < 0 then CHR ''-'' # str_nat (nat (- i)) else str_nat (nat i))"

definition py_str :: "(rat \<Rightarrow> string) \<Rightarrow> sql_value \<Rightarrow> string" where
  \<comment> \<open>\<open>str(v)\<close>; the first argument prints a float\<close>
  "py_str float_repr v =
     (case v of SqlNull \<Rightarrow> ''None'' | SqlInteger n \<Rightarrow> str_int n | SqlReal x \<Rightarrow> float_repr x
      | SqlText s \<Rightarrow> s)"

subsection \<open>SQLite arithmetic\<close>

definition sql_avg :: "int list \<Rightarrow> rat option" where
  \<comment> \<open>\<open>AVG\<close> over the integers of a group: \<open>NULL\<close> when there is no row, else the sum as
      a double divided by the count (the sum is exact while it stays in 64 bits)\<close>
  "sql_avg xs =
     (if xs = [] then None
      else Some (fl (float_of_int (sum_list xs) / of_nat (length xs))))"

definition sql_sum :: "int list \<Rightarrow> int option" where
  "sql_sum xs = (if xs = [] then None else Some (sum_list xs))"

definition sql_cast_integer :: "rat \<Rightarrow> int" where
  \<comment> \<open>\<open>CAST(x AS INTEGER)\<close> of a \<open>REAL\<close>: truncation towards zero, kept within 64 bits\<close>
  "sql_cast_integer x =
     (if x \<le> - (2 ^ 63) then - (2 ^ 63) else if 2 ^ 63 \<le> x then 2 ^ 63 - 1 else py_int x)"

definition coalesce :: "'a option \<Rightarrow> 'a \<Rightarrow> 'a" where
  "coalesce v d = (case v of None \<Rightarrow> d | Some x \<Rightarrow> x)"

definition nullif :: "int \<Rightarrow> int \<Rightarrow> int option" where
  "nullif a b = (if a = b then None else Some a)"

subsection \<open>\<open>ORDER BY\<close>\<close>

definition null_le :: "('a \<Rightarrow> 'a \<Rightarrow> bool) \<Rightarrow> 'a option \<Rightarrow> 'a option \<Rightarrow> bool" where
  \<comment> \<open>ascending order of a nullable column: SQLite sorts \<open>NULL\<close> below every value\<close>
  "null_le le a b =
     (case a of
        None \<Rightarrow> True
      | Some x \<Rightarrow> (case b of None \<Rightarrow> False | Some y \<Rightarrow> le x y))"

definition by_key :: "('a \<Rightarrow> 'k) \<Rightarrow> ('k \<Rightarrow> 'k \<Rightarrow> bool) \<Rightarrow> 'a \<Rightarrow> 'a \<Rightarrow> bool" where
  \<comment> \<open>one term of an \<open>ORDER BY\<close>, ascending\<close>
  "by_key key le a b = le (key a) (key b)"

definition descending :: "('a \<Rightarrow> 'a \<Rightarrow> bool) \<Rightarrow> 'a \<Rightarrow> 'a \<Rightarrow> bool" where
  "descending le a b = le b a"

definition then_by :: "('a \<Rightarrow> 'a \<Rightarrow> bool) \<Rightarrow> ('a \<Rightarrow> 'a \<Rightarrow> bool) \<Rightarrow> 'a \<Rightarrow> 'a \<Rightarrow> bool" where
  \<comment> \<open>the first term decides; the second breaks its ties\<close>
  "then_by le1 le2 a b = (le1 a b \<and> (\<not> le1 b a \<or> le2 a b))"

definition total_preorder :: "('a \<Rightarrow> 'a \<Rightarrow> bool) \<Rightarrow> bool" where
  \<comment> \<open>what a comparison must be for sorting with it to make sense\<close>
  "total_preorder le =
     ((\<forall>a b. le a b \<or> le b a) \<and> (\<forall>a b c. le a b \<and> le b c \<longrightarrow> le a c))"

primrec insert_by :: "('a \<Rightarrow> 'a \<Rightarrow> bool) \<Rightarrow> 'a \<Rightarrow> 'a list \<Rightarrow> 'a list" where
  "insert_by le x [] = [x]"
| "insert_by le x (y # ys) = (if le x y then x # y # ys else y # insert_by le x ys)"

definition order_by :: "('a \<Rightarrow> 'a \<Rightarrow> bool) \<Rightarrow> 'a list \<Rightarrow> 'a list" where
  \<comment> \<open>The clause does not order rows that tie on every term: the store is free there.
      The model keeps them in the order in which the join produced them.\<close>
  "order_by le rows = foldr (insert_by le) rows []"

subsection \<open>Tables\<close>

record company =
  co_id :: string
  co_is_active :: bool

record product =
  p_id :: string
  p_sku :: string
  p_name :: string
  p_price :: sql_value
  p_low_stock_threshold :: int
  p_reorder_quantity :: int
  p_supplier_id :: "string option"
  p_company_id :: string
  p_is_active :: bool

record inventory_record =
  i_product_id :: string
  i_warehouse_id :: string
  i_current_stock :: int
  i_reserved_stock :: int
  i_available_stock :: int

record warehouse =
  w_id :: string
  w_name :: string
  w_is_active :: bool

record supplier =
  s_id :: string
  s_name :: string
  s_email :: string
  s_phone :: string
  s_is_active :: bool

record sales_transaction =
  st_product_id :: string
  st_warehouse_id :: string
  st_sale_date :: int          \<comment> \<open>the day of the sale, as a day number\<close>
  st_quantity_sold :: int

record inventory_db =
  db_companies :: "company list"
  db_products :: "product list"
  db_inventory :: "inventory_record list"
  db_warehouses :: "warehouse list"
  db_suppliers :: "supplier list"
  db_sales_transactions :: "sales_transaction list"

record api_env =
  today :: int                       \<comment> \<open>\<open>DATE('now')\<close>, as a day number\<close>
  utc_now :: string                  \<comment> \<open>what the next call of \<open>datetime.utcnow()\<close> returns\<close>
  utc_later :: "nat \<Rightarrow> string"     \<comment> \<open>what the calls after it return\<close>
  float_repr :: "rat \<Rightarrow> string"     \<comment> \<open>how \<open>str\<close> prints a float\<close>

definition tick :: "api_env \<Rightarrow> api_env" where
  \<comment> \<open>the environment after one reading of the clock\<close>
  "tick e = e\<lparr>utc_now := utc_later e 0, utc_later := (\<lambda>k. utc_later e (Suc k))\<rparr>"

definition left_join :: "('a \<Rightarrow> bool) \<Rightarrow> 'a list \<Rightarrow> 'a option list" where
  \<comment> \<open>the right-hand rows that match, or one \<open>NULL\<close> row when none does\<close>
  "left_join on rows = (if filter on rows = [] then [None] else map Some (filter on rows))"

subsection \<open>Sales velocity\<close>

definition sales_since :: "inventory_db \<Rightarrow> int \<Rightarrow> string \<Rightarrow> string \<Rightarrow> sales_transaction list" where
  \<comment> \<open>the sales of a product in a warehouse with \<open>sale_date >= since\<close>\<close>
  "sales_since db since pid wid =
     filter (\<lambda>t. st_product_id t = pid \<and> st_warehouse_id t = wid \<and> since \<le> st_sale_date t)
       (db_sales_transactions db)"

definition daily_sales :: "sales_transaction list \<Rightarrow> int list" where
  \<comment> \<open>\<open>SELECT SUM(quantity_sold) ... GROUP BY DATE(sale_date)\<close>: one total for each day with a sale\<close>
  "daily_sales ts =
     map (\<lambda>d. sum_list (map st_quantity_sold (filter (\<lambda>t. st_sale_date t = d) ts)))
       (remdups (map st_sale_date ts))"

definition avg_daily_sales :: "api_env \<Rightarrow> inventory_db \<Rightarrow> int \<Rightarrow> string \<Rightarrow> string \<Rightarrow> rat" where
  "avg_daily_sales e db days_lookback pid wid =
     coalesce (sql_avg (daily_sales (sales_since db (today e - days_lookback) pid wid))) 0"

definition total_recent_sales :: "api_env \<Rightarrow> inventory_db \<Rightarrow> int \<Rightarrow> string \<Rightarrow> string \<Rightarrow> int" where
  "total_recent_sales e db days_lookback pid wid =
     coalesce (sql_sum (map st_quantity_sold (sales_since db (today e - days_lookback) pid wid))) 0"

subsection \<open>The query of \<open>get_low_stock_alerts\<close>\<close>

record alert_row =
  r_product_id :: string
  r_sku :: string
  r_product_name :: string
  r_price :: sql_value
  r_low_stock_threshold :: int
  r_warehouse_id :: string
  r_warehouse_name :: string
  r_current_stock :: int
  r_reserved_stock :: int
  r_available_stock :: int
  r_supplier_id :: "string option"
  r_supplier_name :: "string option"
  r_supplier_email :: "string option"
  r_supplier_phone :: "string option"
  r_avg_daily_sales :: rat
  r_total_recent_sales :: int

text \<open>
  The statement ends with the clause of lines 126 to 131, here without its comments and
  line breaks. It casts with \<open>::FLOAT\<close>, which is PostgreSQL's notation.
\<close>

definition order_by_clause :: string where
  "order_by_clause =
     ''ORDER BY CASE WHEN i.current_stock = 0 THEN 0 ELSE 1 END, '' @
     ''(i.current_stock::FLOAT / NULLIF(p.low_stock_threshold, 0)) ASC, '' @
     ''p.name ASC''"

text \<open>
  SQLite's tokenizer reads \<open>:\<close> as the start of a parameter name and wants a character of
  an identifier after it; a \<open>:\<close> followed by anything else is an unrecognized token and
  the statement is not prepared. (The clause holds no string literal and no comment in
  which a \<open>:\<close> could hide.)
\<close>

definition sqlite_idchar :: "char \<Rightarrow> bool" where
  "sqlite_idchar c =
     ((CHR ''a'' \<le> c \<and> c \<le> CHR ''z'') \<or> (CHR ''A'' \<le> c \<and> c \<le> CHR ''Z'')
      \<or> (CHR ''0'' \<le> c \<and> c \<le> CHR ''9'') \<or> c = CHR ''_'' \<or> c = CHR ''$''
      \<or> CHR 0x80 \<le> c)"

fun unrecognized_token :: "string \<Rightarrow> bool" where
  "unrecognized_token [] = False"
| "unrecognized_token [c] = (c = CHR '':'')"
| "unrecognized_token (c # d # s) =
     ((c = CHR '':'' \<and> \<not> sqlite_idchar d) \<or> unrecognized_token (d # s))"

datatype sqlite3_error = OperationalError string

definition select_alert_row ::
  "api_env \<Rightarrow> inventory_db \<Rightarrow> int \<Rightarrow> product \<Rightarrow> inventory_record \<Rightarrow> warehouse \<Rightarrow>
   supplier option \<Rightarrow> alert_row" where
  "select_alert_row e db days_lookback p i w s =
     \<lparr>r_product_id = p_id p, r_sku = p_sku p, r_product_name = p_name p, r_price = p_price p,
      r_low_stock_threshold = p_low_stock_threshold p,
      r_warehouse_id = w_id w, r_warehouse_name = w_name w,
      r_current_stock = i_current_stock i, r_reserved_stock = i_reserved_stock i,
      r_available_stock = i_available_stock i,
      r_supplier_id = map_option s_id s, r_supplier_name = map_option s_name s,
      r_supplier_email = map_option s_email s, r_supplier_phone = map_option s_phone s,
      r_avg_daily_sales = avg_daily_sales e db days_lookback (p_id p) (w_id w),
      r_total_recent_sales = total_recent_sales e db days_lookback (p_id p) (w_id w)\<rparr>"

definition alert_where ::
  "string \<Rightarrow> bool \<Rightarrow> string option \<Rightarrow> product \<Rightarrow> inventory_record \<Rightarrow> warehouse \<Rightarrow> bool" where
  "alert_where company_id include_zero_stock warehouse_id p i w =
     (p_company_id p = company_id \<and> p_is_active p \<and> w_is_active w
      \<and> i_current_stock i \<le> p_low_stock_threshold p
      \<and> (include_zero_stock \<or> 0 < i_current_stock i)
      \<and> (case warehouse_id of
            None \<Rightarrow> True
          | Some wid \<Rightarrow> if wid = [] then True else w_id w = wid))"

definition stock_ratio :: "alert_row \<Rightarrow> rat option" where
  \<comment> \<open>what \<open>i.current_stock::FLOAT / NULLIF(p.low_stock_threshold, 0)\<close> denotes where the
      cast is accepted\<close>
  "stock_ratio r =
     map_option (\<lambda>t. fl (float_of_int (r_current_stock r) / float_of_int t))
       (nullif (r_low_stock_threshold r) 0)"

definition alert_order :: "alert_row \<Rightarrow> alert_row \<Rightarrow> bool" where
  "alert_order =
     then_by (by_key (\<lambda>r. if r_current_stock r = 0 then (0::nat) else 1) (\<le>))
       (then_by (by_key stock_ratio (null_le (\<le>)))
          (by_key r_product_name (\<le>)))"

definition alert_rows ::
  "api_env \<Rightarrow> inventory_db \<Rightarrow> string \<Rightarrow> int \<Rightarrow> bool \<Rightarrow> string option \<Rightarrow> alert_row list" where
  \<comment> \<open>the rows the statement denotes, for a store that accepts it\<close>
  "alert_rows e db company_id days_lookback include_zero_stock warehouse_id =
     order_by alert_order
       [select_alert_row e db days_lookback p i w s.
          p \<leftarrow> db_products db,
          i \<leftarrow> db_inventory db, p_id p = i_product_id i,
          w \<leftarrow> db_warehouses db, i_warehouse_id i = w_id w,
          s \<leftarrow> left_join (\<lambda>s. p_supplier_id p = Some (s_id s)) (db_suppliers db),
          alert_where company_id include_zero_stock warehouse_id p i w]"

definition alert_query ::
  "api_env \<Rightarrow> inventory_db \<Rightarrow> string \<Rightarrow> int \<Rightarrow> bool \<Rightarrow> string option \<Rightarrow>
   sqlite3_error + alert_row list" where
  \<comment> \<open>\<open>cursor.execute(base_query, params)\<close> and \<open>cursor.fetchall()\<close>\<close>
  "alert_query e db company_id days_lookback include_zero_stock warehouse_id =
     (if unrecognized_token order_by_clause
      then Inl (OperationalError (''unrecognized token: '' @ [CHR 0x22, CHR '':'', CHR 0x22]))
      else Inr (alert_rows e db company_id days_lookback include_zero_stock warehouse_id))"

subsection \<open>From a row to an alert\<close>

datatype urgency = CRITICAL | HIGH | MEDIUM | LOW

record warehouse_ref =
  wr_id :: string
  wr_name :: string

record stock_info =
  si_current_stock :: int
  si_reserved_stock :: int
  si_available_stock :: int
  si_low_stock_threshold :: int
  si_stock_coverage_ratio :: rat

record sales_analysis =
  sa_avg_daily_sales :: rat
  sa_total_recent_sales :: int
  sa_analysis_period_days :: int
  sa_days_until_stockout :: "int option"

record supplier_ref =
  sr_id :: string
  sr_name :: "string option"
  sr_email :: "string option"
  sr_phone :: "string option"

record alert =
  a_product_id :: string
  a_sku :: string
  a_product_name :: string
  a_price :: "string option"
  a_warehouse :: warehouse_ref
  a_stock_info :: stock_info
  a_sales_analysis :: sales_analysis
  a_supplier :: "supplier_ref option"
  a_urgency_level :: urgency
  a_generated_at :: string

definition stockout :: "int \<Rightarrow> rat \<Rightarrow> int \<Rightarrow> py_error + int option \<times> urgency" where
  \<comment> \<open>lines 144 to 162: \<open>days_until_stockout\<close> and \<open>urgency_level\<close>. The comparison of an
      \<open>int\<close> with a \<open>float\<close> is exact in Python.\<close>
  "stockout current_stock avg_sales low_stock_threshold =
     (if current_stock = 0 then Inr (Some 0, CRITICAL)
      else if avg_sales \<le> 0 then
        Inr (None, if float_mul (float_of_int low_stock_threshold) (1 / 2) < of_int current_stock
                   then LOW else MEDIUM)
      else
        (case truediv (float_of_int current_stock) avg_sales of
           Inl x \<Rightarrow> Inl x
         | Inr q \<Rightarrow>
             (let days_until_stockout = py_int q
              in Inr (Some days_until_stockout,
                      if days_until_stockout \<le> 7 then CRITICAL
                      else if days_until_stockout \<le> 14 then HIGH
                      else if days_until_stockout \<le> 30 then MEDIUM
                      else LOW))))"

definition process_row :: "api_env \<Rightarrow> int \<Rightarrow> alert_row \<Rightarrow> py_error + alert" where
  \<comment> \<open>the body of \<open>for row in results\<close>\<close>
  "process_row e days_lookback row =
     (let avg_sales = r_avg_daily_sales row; current_stock = r_current_stock row in
      case stockout current_stock avg_sales (r_low_stock_threshold row) of
        Inl x \<Rightarrow> Inl x
      | Inr (days_until_stockout, urgency_level) \<Rightarrow>
          (case int_truediv current_stock (max (r_low_stock_threshold row) 1) of
             Inl x \<Rightarrow> Inl x
           | Inr q \<Rightarrow>
               (let stock_coverage_ratio = float_mul q 100 in
                Inr \<lparr>a_product_id = r_product_id row,
                     a_sku = r_sku row,
                     a_product_name = r_product_name row,
                     a_price = (if truthy (r_price row)
                                then Some (py_str (float_repr e) (r_price row)) else None),
                     a_warehouse = \<lparr>wr_id = r_warehouse_id row, wr_name = r_warehouse_name row\<rparr>,
                     a_stock_info =
                       \<lparr>si_current_stock = current_stock,
                        si_reserved_stock = r_reserved_stock row,
                        si_available_stock = r_available_stock row,
                        si_low_stock_threshold = r_low_stock_threshold row,
                        si_stock_coverage_ratio = py_round stock_coverage_ratio 1\<rparr>,
                     a_sales_analysis =
                       \<lparr>sa_avg_daily_sales = py_round avg_sales 2,
                        sa_total_recent_sales = r_total_recent_sales row,
                        sa_analysis_period_days = days_lookback,
                        sa_days_until_stockout = days_until_stockout\<rparr>,
                     a_supplier =
                       (case r_supplier_id row of
                          None \<Rightarrow> None
                        | Some sid \<Rightarrow>
                            if sid = [] then None
                            else Some \<lparr>sr_id = sid, sr_name = r_supplier_name row,
                                       sr_email = r_supplier_email row,
                                       sr_phone = r_supplier_phone row\<rparr>),
                     a_urgency_level = urgency_level,
                     a_generated_at = utc_now e\<rparr>)))"

text \<open>
  The loop stops at the first row that raises. Each alert reads the clock once; the
  result carries the environment in which the code after the loop runs.
\<close>

fun process_rows :: "api_env \<Rightarrow> int \<Rightarrow> alert_row list \<Rightarrow> py_error + alert list \<times> api_env" where
  "process_rows e days_lookback [] = Inr ([], e)"
| "process_rows e days_lookback (row # rows) =
     (case process_row e days_lookback row of
        Inl x \<Rightarrow> Inl x
      | Inr a \<Rightarrow>
          (case process_rows (tick e) days_lookback rows of
             Inl x \<Rightarrow> Inl x
           | Inr (alerts, e') \<Rightarrow> Inr (a # alerts, e')))"

subsection \<open>The endpoint \<open>get_low_stock_alerts\<close>\<close>

record summary =
  sm_total_alerts :: nat
  sm_critical_alerts :: nat
  sm_high_priority_alerts :: nat
  sm_zero_stock_products :: nat
  sm_products_without_supplier :: nat

definition summarise :: "alert list \<Rightarrow> summary" where
  "summarise alerts =
     \<lparr>sm_total_alerts = length alerts,
      sm_critical_alerts = length (filter (\<lambda>a. a_urgency_level a = CRITICAL) alerts),
      sm_high_priority_alerts = length (filter (\<lambda>a. a_urgency_level a = HIGH) alerts),
      sm_zero_stock_products =
        length (filter (\<lambda>a. si_current_stock (a_stock_info a) = 0) alerts),
      sm_products_without_supplier = length (filter (\<lambda>a. a_supplier a = None) alerts)\<rparr>"

datatype int_arg = Absent | NotAnInteger | IntArg int

record alert_args =
  arg_days_lookback :: int_arg
  arg_include_zero_stock :: bool     \<comment> \<open>whether the parameter, lower-cased, is \<open>true\<close>\<close>
  arg_warehouse_id :: "string option"

record alerts_result =
  ar_company_id :: string
  ar_summary :: summary
  ar_alerts :: "alert list"
  ar_generated_at :: string
  ar_days_lookback :: int
  ar_include_zero_stock :: bool
  ar_warehouse_filter :: "string option"

datatype api_message =
    CompanyIdRequired | DaysLookbackOutOfRange | CompanyNotFoundOrInactive
  | InvalidParameter | DatabaseErrorOccurred | ApiInternalServerError

record suggestion =
  sg_product_id :: string
  sg_sku :: string
  sg_product_name :: string
  sg_current_stock :: int
  sg_warehouse :: string
  sg_supplier :: "string option"
  sg_supplier_email :: "string option"
  sg_suggested_order_quantity :: int
  sg_default_reorder_quantity :: int

datatype api_body =
    ApiError api_message
  | AlertsBody alerts_result
  | SuggestionsBody "suggestion list" string

record api_response =
  api_status :: nat
  api_payload :: api_body

definition get_low_stock_alerts ::
  "api_env \<Rightarrow> inventory_db \<Rightarrow> string \<Rightarrow> alert_args \<Rightarrow> api_response" where
  "get_low_stock_alerts e db company_id args =
     (if company_id = [] then \<lparr>api_status = 400, api_payload = ApiError CompanyIdRequired\<rparr>
      else
        (case arg_days_lookback args of
           NotAnInteger \<Rightarrow> \<lparr>api_status = 400, api_payload = ApiError InvalidParameter\<rparr>
         | a \<Rightarrow>
            (let days_lookback = (case a of IntArg n \<Rightarrow> n | _ \<Rightarrow> 30) in
             if days_lookback \<le> 0 \<or> 365 < days_lookback
             then \<lparr>api_status = 400, api_payload = ApiError DaysLookbackOutOfRange\<rparr>
             else if filter (\<lambda>c. co_id c = company_id \<and> co_is_active c) (db_companies db) = []
             then \<lparr>api_status = 404, api_payload = ApiError CompanyNotFoundOrInactive\<rparr>
             else
               (case alert_query e db company_id days_lookback
                       (arg_include_zero_stock args) (arg_warehouse_id args) of
                  Inl failure \<Rightarrow>
                    \<lparr>api_status = 500, api_payload = ApiError DatabaseErrorOccurred\<rparr>
                | Inr results \<Rightarrow>
                    (case process_rows e days_lookback results of
                       Inl x \<Rightarrow>
                         \<lparr>api_status = 500, api_payload = ApiError ApiInternalServerError\<rparr>
                     | Inr (alerts, e') \<Rightarrow>
                         \<lparr>api_status = 200,
                          api_payload = AlertsBody
                            \<lparr>ar_company_id = company_id, ar_summary = summarise alerts,
                             ar_alerts = alerts, ar_generated_at = utc_now e',
                             ar_days_lookback = days_lookback,
                             ar_include_zero_stock = arg_include_zero_stock args,
                             ar_warehouse_filter = arg_warehouse_id args\<rparr>\<rparr>)))))"

definition alerts_of :: "api_response \<Rightarrow> alert list" where
  \<comment> \<open>the \<open>alerts\<close> of a response; none when the response carries an error\<close>
  "alerts_of resp = (case api_payload resp of AlertsBody res \<Rightarrow> ar_alerts res | _ \<Rightarrow> [])"

subsection \<open>The endpoint \<open>get_reorder_suggestions\<close>\<close>

record reorder_row =
  rr_id :: string
  rr_sku :: string
  rr_name :: string
  rr_reorder_quantity :: int
  rr_current_stock :: int
  rr_warehouse_id :: string
  rr_warehouse_name :: string
  rr_supplier_name :: "string option"
  rr_supplier_email :: "string option"
  rr_suggested_quantity :: int
  rr_daily_avg :: "rat option"     \<comment> \<open>\<open>avg_sales.daily_avg\<close>, which \<open>ORDER BY\<close> reads\<close>

definition daily_avg :: "api_env \<Rightarrow> inventory_db \<Rightarrow> string \<Rightarrow> string \<Rightarrow> rat option" where
  \<comment> \<open>the \<open>avg_sales\<close> subquery joined to a product and warehouse:
      \<open>AVG(quantity_sold)\<close> over their sales rows of the last 30 days\<close>
  "daily_avg e db pid wid = sql_avg (map st_quantity_sold (sales_since db (today e - 30) pid wid))"

definition suggested_quantity :: "rat option \<Rightarrow> int \<Rightarrow> int" where
  "suggested_quantity avg reorder_quantity =
     (case avg of
        None \<Rightarrow> reorder_quantity
      | Some a \<Rightarrow> if 0 < a then sql_cast_integer (float_mul a 30) else reorder_quantity)"

definition select_reorder_row ::
  "api_env \<Rightarrow> inventory_db \<Rightarrow> product \<Rightarrow> inventory_record \<Rightarrow> warehouse \<Rightarrow> supplier option \<Rightarrow>
   reorder_row" where
  "select_reorder_row e db p i w s =
     \<lparr>rr_id = p_id p, rr_sku = p_sku p, rr_name = p_name p,
      rr_reorder_quantity = p_reorder_quantity p,
      rr_current_stock = i_current_stock i, rr_warehouse_id = i_warehouse_id i,
      rr_warehouse_name = w_name w,
      rr_supplier_name = map_option s_name s, rr_supplier_email = map_option s_email s,
      rr_suggested_quantity =
        suggested_quantity (daily_avg e db (p_id p) (i_warehouse_id i)) (p_reorder_quantity p),
      rr_daily_avg = daily_avg e db (p_id p) (i_warehouse_id i)\<rparr>"

definition reorder_where :: "string \<Rightarrow> product \<Rightarrow> inventory_record \<Rightarrow> supplier option \<Rightarrow> bool" where
  \<comment> \<open>\<open>s.is_active = TRUE\<close> is not true of the \<open>NULL\<close> row of the left join\<close>
  "reorder_where company_id p i s =
     (p_company_id p = company_id
      \<and> i_current_stock i \<le> p_low_stock_threshold p
      \<and> p_is_active p
      \<and> (case s of None \<Rightarrow> False | Some s' \<Rightarrow> s_is_active s'))"

definition reorder_order :: "reorder_row \<Rightarrow> reorder_row \<Rightarrow> bool" where
  "reorder_order =
     then_by (by_key rr_current_stock (\<le>))
       (descending (by_key rr_daily_avg (null_le (\<le>))))"

definition reorder_query :: "api_env \<Rightarrow> inventory_db \<Rightarrow> string \<Rightarrow> reorder_row list" where
  "reorder_query e db company_id =
     order_by reorder_order
       [select_reorder_row e db p i w s.
          p \<leftarrow> db_products db,
          i \<leftarrow> db_inventory db, p_id p = i_product_id i,
          w \<leftarrow> db_warehouses db, i_warehouse_id i = w_id w,
          s \<leftarrow> left_join (\<lambda>s. p_supplier_id p = Some (s_id s)) (db_suppliers db),
          reorder_where company_id p i s]"

definition suggestion_of :: "reorder_row \<Rightarrow> suggestion" where
  "suggestion_of row =
     \<lparr>sg_product_id = rr_id row, sg_sku = rr_sku row, sg_product_name = rr_name row,
      sg_current_stock = rr_current_stock row, sg_warehouse = rr_warehouse_name row,
      sg_supplier = rr_supplier_name row, sg_supplier_email = rr_supplier_email row,
      sg_suggested_order_quantity = rr_suggested_quantity row,
      sg_default_reorder_quantity = rr_reorder_quantity row\<rparr>"

definition get_reorder_suggestions :: "api_env \<Rightarrow> inventory_db \<Rightarrow> string \<Rightarrow> api_response" where
  "get_reorder_suggestions e db company_id =
     \<lparr>api_status = 200,
      api_payload = SuggestionsBody (map suggestion_of (reorder_query e db company_id)) (utc_now e)\<rparr>"

definition suggestions_of :: "api_response \<Rightarrow> suggestion list" where
  "suggestions_of resp = (case api_payload resp of SuggestionsBody ss t \<Rightarrow> ss | _ \<Rightarrow> [])"

subsection \<open>Sample stores and rows\<close>

definition sqlite_env :: api_env where
  "sqlite_env =
     \<lparr>today = 100, utc_now = ''2024-04-10T00:00:00'',
      utc_later = (\<lambda>k. ''2024-04-10T00:00:01''), float_repr = (\<lambda>x. ''float'')\<rparr>"

definition default_args :: alert_args where
  "default_args =
     \<lparr>arg_days_lookback = Absent, arg_include_zero_stock = True, arg_warehouse_id = None\<rparr>"

definition sample_product :: "string \<Rightarrow> string \<Rightarrow> int \<Rightarrow> product" where
  "sample_product pid pname threshold =
     \<lparr>p_id = pid, p_sku = pid, p_name = pname, p_price = SqlInteger 0,
      p_low_stock_threshold = threshold, p_reorder_quantity = 50,
      p_supplier_id = Some ''s1'', p_company_id = ''c1'', p_is_active = True\<rparr>"

definition sample_stock :: "string \<Rightarrow> int \<Rightarrow> inventory_record" where
  "sample_stock pid n =
     \<lparr>i_product_id = pid, i_warehouse_id = ''w1'', i_current_stock = n,
      i_reserved_stock = 0, i_available_stock = n\<rparr>"

definition sample_sale :: "int \<Rightarrow> int \<Rightarrow> sales_transaction" where
  "sample_sale day n =
     \<lparr>st_product_id = ''p1'', st_warehouse_id = ''w1'', st_sale_date = day,
      st_quantity_sold = n\<rparr>"

definition ratio_db :: inventory_db where
  \<comment> \<open>product \<open>a\<close> holds 1 of a threshold of 3, product \<open>b\<close> 333 of 1000\<close>
  "ratio_db =
     \<lparr>db_companies = [\<lparr>co_id = ''c1'', co_is_active = True\<rparr>],
      db_products = [sample_product ''p1'' ''a'' 3, sample_product ''p2'' ''b'' 1000],
      db_inventory = [sample_stock ''p1'' 1, sample_stock ''p2'' 333],
      db_warehouses = [\<lparr>w_id = ''w1'', w_name = ''Main'', w_is_active = True\<rparr>],
      db_suppliers = [],
      db_sales_transactions = []\<rparr>"

definition busy_db :: inventory_db where
  \<comment> \<open>one product, 5 in stock of a threshold of 10, sold twice on day 99: 2 units and 4 units\<close>
  "busy_db =
     \<lparr>db_companies = [\<lparr>co_id = ''c1'', co_is_active = True\<rparr>],
      db_products = [sample_product ''p1'' ''a'' 10],
      db_inventory = [sample_stock ''p1'' 5],
      db_warehouses = [\<lparr>w_id = ''w1'', w_name = ''Main'', w_is_active = True\<rparr>],
      db_suppliers = [\<lparr>s_id = ''s1'', s_name = ''Acme'', s_email = ''a@acme.test'',
                       s_phone = ''1'', s_is_active = True\<rparr>],
      db_sales_transactions = [sample_sale 99 2, sample_sale 99 4]\<rparr>"

definition closed_warehouse_db :: inventory_db where
  \<comment> \<open>\<open>busy_db\<close> with its warehouse inactive\<close>
  "closed_warehouse_db =
     busy_db\<lparr>db_warehouses := [\<lparr>w_id = ''w1'', w_name = ''Main'', w_is_active = False\<rparr>]\<rparr>"

definition spec_row :: alert_row where
  \<comment> \<open>20 in stock, 2 sold a day\<close>
  "spec_row =
     \<lparr>r_product_id = ''p1'', r_sku = ''p1'', r_product_name = ''a'', r_price = SqlInteger 0,
      r_low_stock_threshold = 25, r_warehouse_id = ''w1'', r_warehouse_name = ''Main'',
      r_current_stock = 20, r_reserved_stock = 0, r_available_stock = 20,
      r_supplier_id = None, r_supplier_name = None, r_supplier_email = None,
      r_supplier_phone = None, r_avg_daily_sales = 2, r_total_recent_sales = 60\<rparr>"

definition text_price_row :: "string \<Rightarrow> alert_row" where
  \<comment> \<open>a row whose price column holds text\<close>
  "text_price_row s = spec_row\<lparr>r_price := SqlText s\<rparr>"

definition stock_row :: "int \<Rightarrow> int \<Rightarrow> rat \<Rightarrow> alert_row" where
  \<comment> \<open>a row with the given stock, threshold and average daily sales\<close>
  "stock_row stock threshold avg =
     spec_row\<lparr>r_current_stock := stock, r_available_stock := stock,
              r_low_stock_threshold := threshold, r_avg_daily_sales := avg\<rparr>"

section \<open>Properties of product creation\<close>

subsection \<open>What readers can see while the transaction runs\<close>

lemma run_stmt_keeps_committed:
  "run_stmt e v s c = Inr c' \<Longrightarrow> s \<noteq> Commit \<Longrightarrow> committed c' = committed c"
  by (cases s) (auto simp: run_stmt_def split: option.splits if_splits)

lemma run_stmts_keep_committed:
  "run_stmts e v ss c = (r, cs) \<Longrightarrow> Commit \<notin> set ss \<Longrightarrow>
     \<forall>c' \<in> set cs. committed c' = committed c"
proof (induction ss arbitrary: c r cs)
  case Nil
  then show ?case by simp
next
  case (Cons s ss)
  show ?case
  proof (cases "run_stmt e v s c")
    case (Inl x)
    with Cons.prems show ?thesis by simp
  next
    case (Inr c')
    obtain r' cs' where rest: "run_stmts e v ss c' = (r', cs')"
      by (cases "run_stmts e v ss c'")
    from Cons.prems Inr rest have cs: "cs = c' # cs'" by simp
    from Cons.prems have "s \<noteq> Commit" "Commit \<notin> set ss" by auto
    with Inr rest Cons.IH[OF rest] run_stmt_keeps_committed[OF Inr]
    show ?thesis by (simp add: cs)
  qed
qed

lemma run_stmts_append:
  "run_stmts e v (ss @ ts) c =
     (case run_stmts e v ss c of
        (Some x, cs) \<Rightarrow> (Some x, cs)
      | (None, cs) \<Rightarrow> (case run_stmts e v ts (last (c # cs)) of (r, ds) \<Rightarrow> (r, cs @ ds)))"
  by (induction ss arbitrary: c) (auto split: sum.splits prod.splits option.splits)

lemma try_body_split: "try_body = before_commit @ [Commit]"
  by (simp add: try_body_def before_commit_def)

lemma before_commit_working:
  "run_stmts e v before_commit (connect db) = (None, cs) \<Longrightarrow>
     working (last (connect db # cs)) = with_created e v db"
  unfolding before_commit_def
  by (auto simp: run_stmt_def connect_def with_created_def
           split: option.splits if_splits sum.splits prod.splits)

lemma committed_rollback: "committed (rollback c) = committed c"
  by (simp add: rollback_def)

lemma status_inner_except:
  "status (finish (inner_except v x)) = 409 \<or> status (finish (inner_except v x)) = 500"
  by (cases x) (simp_all add: inner_except_def finish_def outer_except_def error_response_def)

lemma last_in_set_or: "last (c # cs) = c \<or> last (c # cs) \<in> set cs"
  by (cases cs) auto

lemma transaction_atomic:
  assumes "transaction e v db = (resp, seen)"
  shows "(status resp = 201 \<and> last seen = with_created e v db \<and>
            (\<forall>d \<in> set (butlast seen). d = db))
       \<or> (status resp \<noteq> 201 \<and> seen \<noteq> [] \<and> (\<forall>d \<in> set seen. d = db))"
proof -
  let ?c0 = "connect db"
  obtain p ps where pre: "run_stmts e v before_commit ?c0 = (p, ps)"
    by (cases "run_stmts e v before_commit ?c0")
  have nc: "Commit \<notin> set before_commit" by (simp add: before_commit_def)
  have keep: "\<forall>c \<in> set ps. committed c = db"
    using run_stmts_keep_committed[OF pre nc] by (simp add: connect_def)
  have keep_last: "committed (last (?c0 # ps)) = db"
    using keep last_in_set_or[of ?c0 ps] by (auto simp: connect_def)
  have failed: "status resp \<noteq> 201 \<and> seen \<noteq> [] \<and> (\<forall>d \<in> set seen. d = db)"
    if run: "run_stmts e v try_body ?c0 = (Some x, ps)" for x
  proof -
    from assms run have "resp = finish (inner_except v x)"
      and "seen = db # map committed ps @ [committed (rollback (last (?c0 # ps)))]"
      by (simp_all add: transaction_def Let_def)
    with keep keep_last status_inner_except[of v x] show ?thesis
      by (auto simp: committed_rollback)
  qed
  show ?thesis
  proof (cases p)
    case (Some x)
    with pre have "run_stmts e v try_body ?c0 = (Some x, ps)"
      by (simp add: try_body_split run_stmts_append)
    from failed[OF this] show ?thesis by simp
  next
    case None
    let ?c6 = "last (?c0 # ps)"
    from None pre before_commit_working[of e v db ps]
    have w: "working ?c6 = with_created e v db" by blast
    show ?thesis
    proof (cases "faults e Commit")
      case (Some f)
      with None pre have "run_stmts e v try_body ?c0 = (Some (raised f), ps)"
        by (simp add: try_body_split run_stmts_append run_stmt_def)
      from failed[OF this] show ?thesis by simp
    next
      case no_fault: None
      with None pre have run: "run_stmts e v try_body ?c0 = (None, ps @ [commit ?c6])"
        by (simp add: try_body_split run_stmts_append run_stmt_def)
      with assms have "resp = created_response e v"
        and "seen = db # map committed ps @ [committed (commit ?c6)]"
        by (simp_all add: transaction_def Let_def)
      with keep w show ?thesis
        by (auto simp: created_response_def commit_def butlast_append)
    qed
  qed
qed

text \<open>
  Once validation has passed, the response is 201, 409 or 500: no exception raised inside
  the inner \<open>try\<close> reaches the handler that answers 400.
\<close>

lemma transaction_status:
  "status (fst (transaction e v db)) = 201
   \<or> status (fst (transaction e v db)) = 409
   \<or> status (fst (transaction e v db)) = 500"
proof (cases "run_stmts e v try_body (connect db)")
  case (Pair r cs)
  show ?thesis
  proof (cases r)
    case None
    with Pair show ?thesis
      by (simp add: transaction_def created_response_def)
  next
    case (Some x)
    with Pair status_inner_except[of v x] show ?thesis
      by (simp add: transaction_def Let_def)
  qed
qed

lemma validated_request_never_400:
  "validate r = Inr v \<Longrightarrow> status (fst (add_product e (Some r) db)) \<noteq> 400"
  using transaction_status[of e v db] by (auto simp: add_product_def)

lemma with_created_rows:
  "last (products (with_created e v db)) = new_product e v
   \<and> last (inventory (with_created e v db)) = new_inventory e v
   \<and> last (inventory_transactions (with_created e v db)) = new_inventory_transaction e v
   \<and> iv_product_id (new_inventory e v) = pr_id (new_product e v)
   \<and> it_product_id (new_inventory_transaction e v) = pr_id (new_product e v)
   \<and> it_transaction_type (new_inventory_transaction e v) = ''INITIAL_STOCK''"
  by (simp add: with_created_def new_product_def new_inventory_def new_inventory_transaction_def)

subsection \<open>Sample runs\<close>

lemma validate_example: "validate example_request = Inr example_input"
  by (simp add: validate_def example_request_def example_input_def strip_def isspace_def
        dict_get_def below_zero_def Let_def)

lemmas sample_defs =
  example_env_def sample_clock_def no_faults_def example_db_def empty_db_def example_input_def
  disk_full_env_def racing_env_def stocked_db_def sqlite_unique_violation_def

lemmas txn_defs =
  add_product_def transaction_def try_body_def run_stmt_def connect_def commit_def rollback_def
  with_created_def new_product_def new_inventory_def new_inventory_transaction_def
  inner_except_def outer_except_def finish_def raised_def error_response_def

lemma run_example:
  "add_product example_env (Some example_request) example_db =
     (created_response example_env example_input,
      replicate 7 example_db @ [with_created example_env example_input example_db])"
  by (simp add: validate_example txn_defs sample_defs numeral_eq_Suc)

lemma run_disk_full:
  "add_product disk_full_env (Some example_request) example_db =
     (error_response 500 InternalServerError, replicate 6 example_db)"
  by (simp add: validate_example txn_defs sample_defs numeral_eq_Suc)

subsection \<open>Claims\<close>

text \<open>
  C1. For every request that passes validation, the product row, the inventory row and the
  audit row of type \<open>INITIAL_STOCK\<close> are written all together or not at all. Either the
  response is 201, the store ends as \<open>with_created\<close> (the three rows added) and every
  state a reader could see before that is the untouched store; or the response is not 201
  and every state a reader could see, the final one included, is the untouched store.
  This holds whichever statement the storage layer rejects, and however it rejects it.
\<close>

theorem add_product_atomic:
  assumes "validate r = Inr v" and "add_product e (Some r) db = (resp, seen)"
  shows "(status resp = 201 \<and> last seen = with_created e v db \<and>
            (\<forall>d \<in> set (butlast seen). d = db))
       \<or> (status resp \<noteq> 201 \<and> seen \<noteq> [] \<and> (\<forall>d \<in> set seen. d = db))"
proof -
  from assms have "transaction e v db = (resp, seen)"
    by (simp add: add_product_def)
  then show ?thesis by (rule transaction_atomic)
qed

theorem add_product_atomic_witness:
  "validate example_request = Inr example_input
   \<and> add_product example_env (Some example_request) example_db =
       (created_response example_env example_input,
        replicate 7 example_db @ [with_created example_env example_input example_db])
   \<and> status (created_response example_env example_input) = 201
   \<and> last (replicate 7 example_db @ [with_created example_env example_input example_db]) =
       with_created example_env example_input example_db
   \<and> add_product disk_full_env (Some example_request) example_db =
       (error_response 500 InternalServerError, replicate 6 example_db)
   \<and> status (error_response 500 InternalServerError) = 500
   \<and> set (replicate 6 example_db) = {example_db}"
  using add_product_atomic[OF validate_example run_example]
        add_product_atomic[OF validate_example run_disk_full]
        validate_example run_example run_disk_full
  by (simp add: created_response_def error_response_def)

text \<open>
  C2. When the pre-checks have passed and the storage layer then rejects the insert of the
  product, the response depends on the class of the failure: a uniqueness violation
  (an \<open>IntegrityError\<close> whose text contains \<open>UNIQUE constraint failed\<close>, as the one SQLite
  raises for \<open>products.sku\<close>) gives the conflict response 409; any other failure gives 500.
\<close>

theorem unique_violation_conflict:
  assumes valid: "validate r = Inr v"
    and quiet: "faults e BeginTransaction = None" "faults e SelectWarehouse = None"
               "faults e SelectSku = None"
    and wh: "\<exists>w \<in> set (warehouses db). wh_id w = vi_warehouse_id v"
    and fresh: "\<forall>p \<in> set (products db). pr_sku p \<noteq> vi_sku v"
    and rejected: "faults e InsertProduct = Some f"
  shows "(f = sqlite_unique_violation ''products'' ''sku'' \<longrightarrow>
            fst (add_product e (Some r) db) = error_response 409 (SkuAlreadyExists (vi_sku v)))
       \<and> status (fst (add_product e (Some r) db)) =
           (case f of
              SqlIntegrityError m \<Rightarrow>
                if str_contains ''UNIQUE constraint failed'' m then 409 else 500
            | SqlOtherError m \<Rightarrow> 500)"
proof -
  from wh have w: "filter (\<lambda>w. wh_id w = vi_warehouse_id v) (warehouses db) \<noteq> []"
    by (auto simp: filter_empty_conv)
  from fresh have s: "filter (\<lambda>p. pr_sku p = vi_sku v) (products db) = []"
    by (auto simp: filter_empty_conv)
  have run: "run_stmts e v try_body (connect db) = (Some (raised f), replicate 3 (connect db))"
    using quiet rejected w s
    by (simp add: try_body_def run_stmt_def connect_def numeral_eq_Suc)
  have resp: "fst (add_product e (Some r) db) = finish (inner_except v (raised f))"
    using valid run by (simp add: add_product_def transaction_def Let_def)
  show ?thesis
    unfolding resp
    by (cases f)
       (simp_all add: raised_def inner_except_def finish_def outer_except_def error_response_def
          sqlite_unique_violation_def)
qed

theorem unique_violation_conflict_witness:
  "validate example_request = Inr example_input
   \<and> faults racing_env BeginTransaction = None
   \<and> faults racing_env SelectWarehouse = None
   \<and> faults racing_env SelectSku = None
   \<and> (\<exists>w \<in> set (warehouses example_db). wh_id w = vi_warehouse_id example_input)
   \<and> filter (\<lambda>p. pr_sku p = vi_sku example_input) (products example_db) = []
   \<and> faults racing_env InsertProduct = Some (sqlite_unique_violation ''products'' ''sku'')
   \<and> fst (add_product racing_env (Some example_request) example_db) =
       error_response 409 (SkuAlreadyExists ''A1'')"
proof -
  have q: "faults racing_env BeginTransaction = None" "faults racing_env SelectWarehouse = None"
      "faults racing_env SelectSku = None"
    by (simp_all add: sample_defs)
  have w: "\<exists>w \<in> set (warehouses example_db). wh_id w = vi_warehouse_id example_input"
    by (simp add: sample_defs)
  have s: "\<forall>p \<in> set (products example_db). pr_sku p \<noteq> vi_sku example_input"
    by (simp add: sample_defs)
  have f: "faults racing_env InsertProduct = Some (sqlite_unique_violation ''products'' ''sku'')"
    by (simp add: racing_env_def)
  from unique_violation_conflict[OF validate_example q w s f] validate_example q w s f
  show ?thesis by (simp add: example_input_def)
qed

text \<open>
  C3. A request that names a warehouse the store does not have raises \<open>ValidationError\<close>
  inside the inner \<open>try\<close>. Its \<open>except Exception\<close> clause catches that exception too and
  replaces it by \<open>DatabaseError\<close>, so the response is 500, not 400. Nothing is written.
\<close>

theorem missing_warehouse_gives_500:
  "validate example_request = Inr example_input
   \<and> run_stmts example_env example_input try_body (connect empty_db) =
       (Some (ValidationError (WarehouseDoesNotExist 7)), [connect empty_db])
   \<and> outer_except (ValidationError (WarehouseDoesNotExist 7)) =
       error_response 400 (WarehouseDoesNotExist 7)
   \<and> add_product example_env (Some example_request) empty_db =
       (error_response 500 InternalServerError, [empty_db, empty_db, empty_db])"
  by (simp add: validate_example txn_defs sample_defs)

text \<open>
  C4. A request whose SKU is already in the store raises \<open>ValidationError\<close> at the
  pre-check, inside the inner \<open>try\<close>; the same \<open>except Exception\<close> clause turns it into
  \<open>DatabaseError\<close>, and the response is 500, not 400.
\<close>

theorem duplicate_sku_gives_500:
  "validate example_request = Inr example_input
   \<and> run_stmts example_env example_input try_body (connect stocked_db) =
       (Some (ValidationError (SkuAlreadyExists ''A1'')), [connect stocked_db, connect stocked_db])
   \<and> outer_except (ValidationError (SkuAlreadyExists ''A1'')) =
       error_response 400 (SkuAlreadyExists ''A1'')
   \<and> fst (add_product example_env (Some example_request) stocked_db) =
       error_response 500 InternalServerError"
  by (simp add: validate_example txn_defs sample_defs)

section \<open>Properties of the alerts and the reorder suggestions\<close>

subsection \<open>Rounding to a double\<close>

lemma round_half_even_nonneg: "0 \<le> x \<Longrightarrow> 0 \<le> round_half_even x"
  by (auto simp: round_half_even_def Let_def)

lemma round_half_even_of_int: "round_half_even (of_int k) = k"
  by (simp add: round_half_even_def)

lemma pow2_pos: "0 < pow2 k"
  by (simp add: pow2_def)

lemma fl_nonneg: "0 \<le> x \<Longrightarrow> 0 \<le> fl x"
proof -
  assume x: "0 \<le> x"
  show ?thesis
  proof (cases "x = 0")
    case True
    then show ?thesis by (simp add: fl_def)
  next
    case False
    with x have "0 \<le> x / pow2 (exponent x - 52)"
      using pow2_pos[of "exponent x - 52"] by simp
    then have "0 \<le> round_half_even (x / pow2 (exponent x - 52))"
      by (rule round_half_even_nonneg)
    with False x show ?thesis
      using pow2_pos[of "exponent x - 52"] by (simp add: fl_def Let_def)
  qed
qed

subsection \<open>Every row becomes an alert\<close>

lemma stockout_total: "\<exists>d u. stockout s avg t = Inr (d, u)"
  by (simp add: stockout_def truediv_def Let_def)

lemma py_int_nonneg: "0 \<le> x \<Longrightarrow> py_int x = \<lfloor>x\<rfloor>"
  by (simp add: py_int_def)

lemma process_row_fields:
  obtains a where "process_row e n row = Inr a"
    and "stockout (r_current_stock row) (r_avg_daily_sales row) (r_low_stock_threshold row) =
           Inr (sa_days_until_stockout (a_sales_analysis a), a_urgency_level a)"
    and "si_stock_coverage_ratio (a_stock_info a) =
           py_round (fl (fl (of_int (r_current_stock row) /
                             of_int (max (r_low_stock_threshold row) 1)) * 100)) 1"
    and "a_price a = (if truthy (r_price row) then Some (py_str (float_repr e) (r_price row)) else None)"
proof -
  obtain d u where s: "stockout (r_current_stock row) (r_avg_daily_sales row) (r_low_stock_threshold row) = Inr (d, u)"
    using stockout_total by blast
  have nz: "max (r_low_stock_threshold row) 1 \<noteq> 0"
    by (simp add: max_def)
  show thesis
    by (rule that[of "projr (process_row e n row)"])
       (simp_all add: process_row_def Let_def s int_truediv_def float_mul_def nz)
qed


lemma binary64_moderate:
  assumes "fl x = x" and "x = 0 \<or> (1 / 2 ^ 64 \<le> \<bar>x\<bar> \<and> \<bar>x\<bar> < 2 ^ 64)"
  shows "binary64 x"
proof -
  have lo: "(1::rat) / 2 ^ 1022 \<le> 1 / 2 ^ 64"
    by (intro divide_left_mono power_increasing) simp_all
  have hi: "(2::rat) ^ 64 \<le> 2 ^ 1024"
    by (intro power_increasing) simp_all
  from assms(2) lo hi have "x = 0 \<or> (1 / 2 ^ 1022 \<le> \<bar>x\<bar> \<and> \<bar>x\<bar> < 2 ^ 1024)"
    by linarith
  with assms(1) show ?thesis by (simp add: binary64_def)
qed

lemma below_overflow:
  assumes "x < 2 ^ 128"
  shows "x < (2::rat) ^ 1024"
proof -
  have "(2::rat) ^ 128 \<le> 2 ^ 1024"
    by (intro power_increasing) simp_all
  with assms show ?thesis by linarith
qed

text \<open>
  Where the doubles part from exact arithmetic: 25 over the double nearest to 5/3 is just
  below 15 and rounds to the double 15; 23/80 times 100 lies just below 28.75 on doubles
  and is 28.75 exactly.
\<close>

lemma double_quotient_rounds_up:
  "\<lfloor>25 / fl (5 / 3)\<rfloor> = 14 \<and> \<lfloor>fl (float_of_int 25 / fl (5 / 3))\<rfloor> = 15"
  by code_simp

lemma double_product_rounds_down:
  "round_half_even (23 / 80 * 100 * 10) = 288
   \<and> round_half_even (fl (fl (23 / 80) * 100) * 10) = 287"
  by code_simp

subsection \<open>Sorting with the comparison of a query\<close>

lemma set_insert_by: "set (insert_by le x xs) = insert x (set xs)"
  by (induction xs) auto

lemma sorted_insert_by:
  assumes "total_preorder le" and "sorted_wrt le xs"
  shows "sorted_wrt le (insert_by le x xs)"
  using assms(2)
proof (induction xs)
  case Nil
  then show ?case by simp
next
  case (Cons y ys)
  from assms(1) have total: "le a b \<or> le b a" and trans: "le a b \<Longrightarrow> le b c \<Longrightarrow> le a c" for a b c
    unfolding total_preorder_def by blast+
  show ?case
  proof (cases "le x y")
    case True
    with Cons.prems trans have "\<forall>z \<in> set (y # ys). le x z" by auto
    with True Cons.prems show ?thesis by simp
  next
    case False
    with total have "le y x" by blast
    with False Cons show ?thesis by (auto simp: set_insert_by)
  qed
qed

lemma sorted_order_by: "total_preorder le \<Longrightarrow> sorted_wrt le (order_by le xs)"
  unfolding order_by_def by (induction xs) (simp_all add: sorted_insert_by)

lemma set_order_by: "set (order_by le xs) = set xs"
  unfolding order_by_def by (induction xs) (simp_all add: set_insert_by)

lemma total_preorder_linorder: "total_preorder (by_key key ((\<le>) :: 'k::linorder \<Rightarrow> 'k \<Rightarrow> bool))"
  unfolding total_preorder_def by_key_def by auto

lemma total_preorder_null_le:
  "total_preorder (by_key key (null_le ((\<le>) :: 'k::linorder \<Rightarrow> 'k \<Rightarrow> bool)))"
  unfolding total_preorder_def by_key_def null_le_def
  by (auto split: option.splits)

lemma total_preorder_then_by:
  assumes "total_preorder le1" and "total_preorder le2"
  shows "total_preorder (then_by le1 le2)"
proof -
  from assms have t1: "le1 a b \<or> le1 b a" and r1: "le1 a b \<Longrightarrow> le1 b c \<Longrightarrow> le1 a c"
    and t2: "le2 a b \<or> le2 b a" and r2: "le2 a b \<Longrightarrow> le2 b c \<Longrightarrow> le2 a c" for a b c
    unfolding total_preorder_def by blast+
  have total: "then_by le1 le2 a b \<or> then_by le1 le2 b a" for a b
    unfolding then_by_def using t1[of a b] t2[of a b] by blast
  have trans: "then_by le1 le2 a c" if ab: "then_by le1 le2 a b" and bc: "then_by le1 le2 b c" for a b c
  proof -
    from ab bc have ac: "le1 a c" unfolding then_by_def using r1 by blast
    have "le2 a c" if ca: "le1 c a"
    proof -
      from ca ab have cb: "le1 c b" unfolding then_by_def using r1 by blast
      from ca bc have ba: "le1 b a" unfolding then_by_def using r1 by blast
      from cb ba ab bc show ?thesis unfolding then_by_def using r2 by blast
    qed
    with ac show ?thesis unfolding then_by_def by blast
  qed
  show ?thesis
    unfolding total_preorder_def using total trans by blast
qed

lemma total_preorder_descending: "total_preorder le \<Longrightarrow> total_preorder (descending le)"
  unfolding total_preorder_def descending_def by blast

lemma sorted_alert_rows: "sorted_wrt alert_order (alert_rows e db cid n z w)"
  unfolding alert_rows_def alert_order_def
  by (intro sorted_order_by total_preorder_then_by total_preorder_linorder
        total_preorder_null_le)

lemma sorted_reorder_query: "sorted_wrt reorder_order (reorder_query e db cid)"
  unfolding reorder_query_def reorder_order_def
  by (intro sorted_order_by total_preorder_then_by total_preorder_linorder
        total_preorder_descending total_preorder_null_le)

subsection \<open>The alert query on SQLite\<close>

lemma order_by_clause_rejected: "unrecognized_token order_by_clause"
  by code_simp

text \<open>
  Whatever the store holds and whatever is asked, the endpoint never answers 200: where
  its checks pass, the statement fails to prepare and the answer is 500.
\<close>

lemma get_low_stock_alerts_status:
  "api_status (get_low_stock_alerts e db company_id args) \<in> {400, 404, 500}"
  by (simp add: get_low_stock_alerts_def alert_query_def order_by_clause_rejected Let_def
           split: int_arg.splits)

lemma get_low_stock_alerts_lists_nothing:
  "alerts_of (get_low_stock_alerts e db company_id args) = []"
  by (simp add: get_low_stock_alerts_def alert_query_def order_by_clause_rejected Let_def
        alerts_of_def split: int_arg.splits)

subsection \<open>What the reorder query selects\<close>

lemma reorder_rows_selected:
  assumes "r \<in> set (reorder_query e db company_id)"
  shows "\<exists>p i w s. p \<in> set (db_products db) \<and> i \<in> set (db_inventory db)
           \<and> w \<in> set (db_warehouses db) \<and> s \<in> set (db_suppliers db)
           \<and> p_id p = i_product_id i \<and> i_warehouse_id i = w_id w
           \<and> p_supplier_id p = Some (s_id s)
           \<and> p_company_id p = company_id \<and> p_is_active p \<and> s_is_active s
           \<and> i_current_stock i \<le> p_low_stock_threshold p
           \<and> r = select_reorder_row e db p i w (Some s)"
proof -
  from assms obtain p i w s where
    "p \<in> set (db_products db)" "i \<in> set (db_inventory db)" "w \<in> set (db_warehouses db)"
    "s \<in> set (db_suppliers db)" "p_id p = i_product_id i" "i_warehouse_id i = w_id w"
    "p_supplier_id p = Some (s_id s)" "p_company_id p = company_id" "p_is_active p"
    "s_is_active s" "i_current_stock i \<le> p_low_stock_threshold p"
    "r = select_reorder_row e db p i w (Some s)"
    by (auto simp: reorder_query_def set_order_by reorder_where_def left_join_def
             split: option.splits if_splits)
  then show ?thesis by blast
qed

subsection \<open>Claims on the alerts and the suggestions\<close>

text \<open>
  C5. The alerts are to be sorted by the \<open>ORDER BY\<close> clause of the statement, and the
  clause is what makes SQLite reject the statement: on \<open>ratio_db\<close>, where company \<open>c1\<close> is
  active and two products are below their thresholds, the endpoint answers 500 with
  \<open>Database error occurred\<close> and lists no alert, sorted or not.
\<close>

theorem alert_query_rejected_by_sqlite:
  "unrecognized_token order_by_clause
   \<and> alert_query sqlite_env ratio_db ''c1'' 30 True None =
       Inl (OperationalError (''unrecognized token: '' @ [CHR 0x22, CHR '':'', CHR 0x22]))
   \<and> length (alert_rows sqlite_env ratio_db ''c1'' 30 True None) = 2
   \<and> get_low_stock_alerts sqlite_env ratio_db ''c1'' default_args =
       \<lparr>api_status = 500, api_payload = ApiError DatabaseErrorOccurred\<rparr>"
  by code_simp

text \<open>
  C6. Every row with a stock that is not negative, integers in the range of the store, an
  average that is a double and a quotient within the range of the doubles yields an alert
  whose projection follows the three cases in order: no stock gives 0 days and
  \<open>CRITICAL\<close>, whatever the sales; otherwise no sales (an average of 0 or less) gives no
  projection, and \<open>LOW\<close> when the stock exceeds half the threshold, \<open>MEDIUM\<close> if not;
  otherwise the days are the floor of stock over average sales, \<open>CRITICAL\<close> up to 7,
  \<open>HIGH\<close> up to 14, \<open>MEDIUM\<close> up to 30, \<open>LOW\<close> beyond. The quotient and the half are the
  program's: computed on doubles, each rounded to the nearest double.
\<close>

theorem stockout_projection_policy:
  assumes "0 \<le> r_current_stock row"
    and "int64 (r_current_stock row)" and "int64 (r_low_stock_threshold row)"
    and "binary64 (r_avg_daily_sales row)"
    and "fl (float_of_int (r_current_stock row) / r_avg_daily_sales row) < 2 ^ 1024"
  shows
    "\<exists>a. process_row e n row = Inr a \<and>
     (let stock = r_current_stock row; avg = r_avg_daily_sales row;
          threshold = r_low_stock_threshold row;
          days = sa_days_until_stockout (a_sales_analysis a); level = a_urgency_level a;
          quotient = fl (float_of_int stock / avg)
      in if stock = 0 then days = Some 0 \<and> level = CRITICAL
         else if avg \<le> 0 then
           days = None \<and>
           level = (if fl (float_of_int threshold * (1 / 2)) < of_int stock then LOW else MEDIUM)
         else
           days = Some \<lfloor>quotient\<rfloor> \<and>
           level = (if \<lfloor>quotient\<rfloor> \<le> 7 then CRITICAL
                    else if \<lfloor>quotient\<rfloor> \<le> 14 then HIGH
                    else if \<lfloor>quotient\<rfloor> \<le> 30 then MEDIUM
                    else LOW))"
proof -
  obtain a where a: "process_row e n row = Inr a"
    and s: "stockout (r_current_stock row) (r_avg_daily_sales row) (r_low_stock_threshold row) =
           Inr (sa_days_until_stockout (a_sales_analysis a), a_urgency_level a)"
    by (rule process_row_fields)
  have "0 \<le> float_of_int (r_current_stock row)"
    unfolding float_of_int_def using assms(1) by (intro fl_nonneg) simp
  then have q: "0 < r_avg_daily_sales row \<Longrightarrow>
      py_int (fl (float_of_int (r_current_stock row) / r_avg_daily_sales row)) =
        \<lfloor>fl (float_of_int (r_current_stock row) / r_avg_daily_sales row)\<rfloor>"
    by (intro py_int_nonneg fl_nonneg) simp
  from s q have
    "(let stock = r_current_stock row; avg = r_avg_daily_sales row;
          threshold = r_low_stock_threshold row;
          days = sa_days_until_stockout (a_sales_analysis a); level = a_urgency_level a;
          quotient = fl (float_of_int stock / avg)
      in if stock = 0 then days = Some 0 \<and> level = CRITICAL
         else if avg \<le> 0 then
           days = None \<and>
           level = (if fl (float_of_int threshold * (1 / 2)) < of_int stock then LOW else MEDIUM)
         else
           days = Some \<lfloor>quotient\<rfloor> \<and>
           level = (if \<lfloor>quotient\<rfloor> \<le> 7 then CRITICAL
                    else if \<lfloor>quotient\<rfloor> \<le> 14 then HIGH
                    else if \<lfloor>quotient\<rfloor> \<le> 30 then MEDIUM
                    else LOW))"
    by (auto simp: stockout_def truediv_def float_mul_def Let_def split: if_splits)
  with a show ?thesis by blast
qed

text \<open>
  Among the sample rows: 25 in stock at the double nearest to 5/3 a day is 15 days, and
  35 in stock at the double nearest to 7/3 a day is 14 days.
\<close>

theorem stockout_projection_policy_witness:
  "(\<exists>a. process_row sqlite_env 30 (stock_row 20 25 2) = Inr a
        \<and> sa_days_until_stockout (a_sales_analysis a) = Some 10 \<and> a_urgency_level a = HIGH)
   \<and> (\<exists>a. process_row sqlite_env 30 (stock_row 25 30 (fl (5 / 3))) = Inr a
        \<and> sa_days_until_stockout (a_sales_analysis a) = Some 15 \<and> a_urgency_level a = MEDIUM)
   \<and> (\<exists>a. process_row sqlite_env 30 (stock_row 35 40 (fl (7 / 3))) = Inr a
        \<and> sa_days_until_stockout (a_sales_analysis a) = Some 14 \<and> a_urgency_level a = HIGH)
   \<and> (\<exists>a. process_row sqlite_env 30 (stock_row 5 10 0) = Inr a
        \<and> sa_days_until_stockout (a_sales_analysis a) = None \<and> a_urgency_level a = MEDIUM)
   \<and> (\<exists>a. process_row sqlite_env 30 (stock_row 8 10 0) = Inr a
        \<and> sa_days_until_stockout (a_sales_analysis a) = None \<and> a_urgency_level a = LOW)
   \<and> (\<exists>a. process_row sqlite_env 30 (stock_row 0 10 3) = Inr a
        \<and> sa_days_until_stockout (a_sales_analysis a) = Some 0 \<and> a_urgency_level a = CRITICAL)
   \<and> (\<exists>a. process_row sqlite_env 30 (stock_row 7 9 1) = Inr a
        \<and> sa_days_until_stockout (a_sales_analysis a) = Some 7 \<and> a_urgency_level a = CRITICAL)
   \<and> (\<exists>a. process_row sqlite_env 30 (stock_row 31 40 1) = Inr a
        \<and> sa_days_until_stockout (a_sales_analysis a) = Some 31 \<and> a_urgency_level a = LOW)"
proof -
  have holds: "\<exists>a. process_row sqlite_env 30 (stock_row s t avg) = Inr a
        \<and> sa_days_until_stockout (a_sales_analysis a) = d \<and> a_urgency_level a = u"
    if range: "0 \<le> s" "int64 s" "int64 t"
      and avg: "fl avg = avg" "avg = 0 \<or> (1 / 2 ^ 64 \<le> \<bar>avg\<bar> \<and> \<bar>avg\<bar> < 2 ^ 64)"
      and finite: "fl (float_of_int s / avg) < 2 ^ 128"
      and eval: "stockout s avg t = Inr (d, u)"
    for s t avg d u
  proof -
    let ?row = "stock_row s t avg"
    have fields: "r_current_stock ?row = s" "r_low_stock_threshold ?row = t"
        "r_avg_daily_sales ?row = avg"
      by (simp_all add: stock_row_def)
    from stockout_projection_policy[of ?row sqlite_env 30, unfolded fields,
        OF range binary64_moderate[OF avg] below_overflow[OF finite]]
    obtain a where a: "process_row sqlite_env 30 ?row = Inr a"
      by blast
    obtain b where b: "process_row sqlite_env 30 ?row = Inr b"
      and s: "stockout (r_current_stock ?row) (r_avg_daily_sales ?row)
                (r_low_stock_threshold ?row) =
              Inr (sa_days_until_stockout (a_sales_analysis b), a_urgency_level b)"
      by (rule process_row_fields)
    from a b s eval show ?thesis
      unfolding fields by auto
  qed
  show ?thesis
    by (intro conjI holds; code_simp)
qed

text \<open>
  C7. On \<open>busy_db\<close> the product was sold on one day, 2 units and 4 units. The average per
  day with sales is 6, as the alert query computes it, and 30 days of it are 180; the
  reorder query averages over the sales rows (3) and suggests 90.
\<close>

theorem reorder_average_is_per_sale:
  "map sg_suggested_order_quantity
       (suggestions_of (get_reorder_suggestions sqlite_env busy_db ''c1'')) = [90]
   \<and> daily_avg sqlite_env busy_db ''p1'' ''w1'' = Some 3
   \<and> avg_daily_sales sqlite_env busy_db 30 ''p1'' ''w1'' = 6
   \<and> \<lfloor>avg_daily_sales sqlite_env busy_db 30 ''p1'' ''w1'' * 30\<rfloor> = 180"
  by code_simp

text \<open>
  C8. On \<open>closed_warehouse_db\<close> the only warehouse is inactive. The alert query selects
  nothing there; the reorder query, which has no condition on the warehouse, still suggests
  product \<open>p1\<close>.
\<close>

theorem reorder_ignores_warehouse_active:
  "map w_is_active (db_warehouses closed_warehouse_db) = [False]
   \<and> map sg_product_id
       (suggestions_of (get_reorder_suggestions sqlite_env closed_warehouse_db ''c1'')) = [''p1'']
   \<and> alerts_of (get_low_stock_alerts sqlite_env closed_warehouse_db ''c1'' default_args) = []"
  by code_simp



text \<open>
  C10. The \<open>price\<close> of every alert is null when the stored price is \<open>NULL\<close>, the empty
  string, the integer 0 or the real 0, and the printed form of the stored value otherwise.
\<close>

theorem alert_price_null_when_falsy:
  "\<exists>a. process_row e n row = Inr a \<and>
     a_price a =
       (case r_price row of
          SqlNull \<Rightarrow> None
        | SqlInteger i \<Rightarrow> if i = 0 then None else Some (str_int i)
        | SqlReal x \<Rightarrow> if x = 0 then None else Some (float_repr e x)
        | SqlText s \<Rightarrow> if s = [] then None else Some s)"
proof -
  obtain a where "process_row e n row = Inr a"
    and "a_price a = (if truthy (r_price row) then Some (py_str (float_repr e) (r_price row)) else None)"
    by (rule process_row_fields)
  then show ?thesis
    by (cases "r_price row") (simp_all add: truthy_def py_str_def)
qed

theorem alert_price_null_when_falsy_witness:
  "(\<exists>a. process_row sqlite_env 30 spec_row = Inr a \<and> r_price spec_row = SqlInteger 0
         \<and> a_price a = None)
   \<and> (\<exists>a. process_row sqlite_env 30 (text_price_row ''19.99'') = Inr a
         \<and> a_price a = Some ''19.99'')
   \<and> (\<exists>a. process_row sqlite_env 30 (text_price_row ''0'') = Inr a \<and> a_price a = Some ''0'')"
  using alert_price_null_when_falsy[of sqlite_env 30 spec_row]
        alert_price_null_when_falsy[of sqlite_env 30 "text_price_row ''19.99''"]
        alert_price_null_when_falsy[of sqlite_env 30 "text_price_row ''0''"]
  by (simp add: spec_row_def text_price_row_def)

end
